theory Spec2Isabelle
  imports Main "HOL-Library.Word"
begin

section \<open>Data model of the intermediate representation\<close>

text \<open>
  The classes \<open>DataType\<close>, \<open>Value\<close>, \<open>Local\<close> and the instruction hierarchy are declared in
  headers that are not among the sources; \<open>MemoryInstruction.cpp\<close> only queries them. They are
  modelled here from the data model of the specification (section 3) and from the way
  \<open>MemoryInstruction.cpp\<close> uses them. Locals are addressed by a handle (a natural number)
  instead of a pointer.
\<close>

datatype AddressSpace = GENERIC | PRIVATE | GLOBAL | CONSTANT | LOCAL

text \<open>
  Modelled from the spec: \<open>DataType\<close> (Types.h is not among the sources) is a
  pointer, array, struct or scalar type with an element type.
\<close>

datatype DataType =
    SimpleType nat
  | PointerType DataType AddressSpace
  | ArrayType DataType nat
  | StructType "DataType list"

fun getPointerType :: "DataType \<Rightarrow> (DataType \<times> AddressSpace) option" where
  "getPointerType (PointerType t a) = Some (t, a)"
| "getPointerType _ = None"

fun getArrayType :: "DataType \<Rightarrow> (DataType \<times> nat) option" where
  "getArrayType (ArrayType t n) = Some (t, n)"
| "getArrayType _ = None"

fun getStructType :: "DataType \<Rightarrow> DataType list option" where
  "getStructType (StructType ts) = Some ts"
| "getStructType _ = None"

text \<open>
  Modelled from the spec: the element type of a pointer or an array is the pointed-to or
  contained type; a scalar or a struct has no further element and is its own element type.
\<close>

fun getElementType :: "DataType \<Rightarrow> DataType" where
  "getElementType (PointerType t a) = t"
| "getElementType (ArrayType t n) = t"
| "getElementType t = t"

definition toArrayType :: "DataType \<Rightarrow> 32 word \<Rightarrow> DataType" where
  "toArrayType t n = ArrayType t (unat n)"

datatype CompilationStep = GENERAL | LLVM_2_IR | OPTIMIZER

text \<open>
  Every \<open>throw CompilationError(step, message, ...)\<close> of the source is a value
  \<open>CompilationError step message\<close>. The error of \<open>assertArgument(i)\<close> on an
  instruction without argument \<open>i\<close> (IntermediateInstruction.cpp is not among the sources)
  is \<open>MissingArgument i\<close>. Dereferencing the null result of \<open>getPointerType()\<close> or of
  \<open>local()\<close> is the failure \<open>NullDereference\<close>.
\<close>

datatype Failure = CompilationError CompilationStep string | MissingArgument nat | NullDereference

text \<open>
  A \<open>Value\<close> is a literal (its 32 bits), a reference to a local, a register or the
  undefined value, and carries its own type.
\<close>

datatype Value =
    LiteralValue "32 word" DataType
  | LocalValue nat DataType
  | RegisterValue nat DataType
  | UndefinedValue DataType

fun valueType :: "Value \<Rightarrow> DataType" where
  "valueType (LiteralValue w t) = t"
| "valueType (LocalValue l t) = t"
| "valueType (RegisterValue r t) = t"
| "valueType (UndefinedValue t) = t"

fun checkLocal :: "Value \<Rightarrow> nat option" where
  "checkLocal (LocalValue l t) = Some l"
| "checkLocal _ = None"

fun getLiteralValue :: "Value \<Rightarrow> 32 word option" where
  "getLiteralValue (LiteralValue w t) = Some w"
| "getLiteralValue _ = None"

definition isLiteralValue :: "Value \<Rightarrow> bool" where
  "isLiteralValue v = (getLiteralValue v \<noteq> None)"

text \<open>
  Modelled from the spec: \<open>Value::operator==\<close> (Values.cpp is not among the sources)
  compares what the two values hold; the count of a READ or WRITE "must evaluate to the
  literal 1", whatever integer type the literal is given.
\<close>

fun valueEquals :: "Value \<Rightarrow> Value \<Rightarrow> bool" where
  "valueEquals (LiteralValue a s) (LiteralValue b t) = (a = b)"
| "valueEquals (LocalValue a s) (LocalValue b t) = (a = b)"
| "valueEquals (RegisterValue a s) (RegisterValue b t) = (a = b)"
| "valueEquals (UndefinedValue s) (UndefinedValue t) = True"
| "valueEquals _ _ = False"

definition TYPE_INT8 :: DataType where
  "TYPE_INT8 = SimpleType 8"

definition INT_ONE :: Value where
  "INT_ONE = LiteralValue 1 TYPE_INT8"

datatype MemoryOperation = COPY | FILL | READ | WRITE

text \<open>
  A \<open>MemoryInstruction\<close>: the operation tag \<open>op\<close>, the output (\<open>getDestination\<close>),
  argument 0 (\<open>getSource\<close>) and argument 1 (\<open>getNumEntries\<close>).
\<close>

record MemoryInstruction =
  op :: MemoryOperation
  getDestination :: Value
  getSource :: Value
  getNumEntries :: Value

section \<open>Construction of a memory instruction\<close>

text \<open>
  The constructor stores the three operands and then rejects an entry count different
  from \<open>INT_ONE\<close> unless the operation copies or fills. The comparison is made on the
  constructor's own parameter \<open>numEntries\<close>.
\<close>

definition newMemoryInstruction ::
  "MemoryOperation \<Rightarrow> Value \<Rightarrow> Value \<Rightarrow> Value \<Rightarrow> Failure + MemoryInstruction" where
  "newMemoryInstruction opTag dst source numEntries =
     (if \<not> valueEquals numEntries INT_ONE \<and> opTag \<noteq> COPY \<and> opTag \<noteq> FILL
      then Inl (CompilationError LLVM_2_IR
                  ''Can only use the entry count for copying or filling memory'')
      else Inr \<lparr> op = opTag, getDestination = dst, getSource = source,
                 getNumEntries = numEntries \<rparr>)"

definition isNormalized :: "MemoryInstruction \<Rightarrow> bool" where
  "isNormalized i = False"

definition hasSideEffects :: "MemoryInstruction \<Rightarrow> bool" where
  "hasSideEffects i = True"

text \<open>
  Modelled from the spec: the loop-invariant finder (ControlFlowLoop.cpp is not among the
  sources) excludes from relocation every instruction with observable side effects, even
  if its operands are invariant (section 4.4).
\<close>

definition relocationCandidate :: "bool \<Rightarrow> MemoryInstruction \<Rightarrow> bool" where
  "relocationCandidate operandsInvariant i = (operandsInvariant \<and> \<not> hasSideEffects i)"

section \<open>Locals and their users\<close>

datatype OpCode = OP_ADD | OP_SUB | OP_OTHER string

text \<open>
  The instruction kinds that \<open>isDerivedFromMemory\<close> tells apart by \<open>dynamic_cast\<close>: a
  \<open>MoveOperation\<close> with its argument 0, an \<open>Operation\<close> with its code, its first argument
  and its second argument if it has one, a \<open>MemoryInstruction\<close>, and any other instruction.
\<close>

datatype IntermediateInstruction =
    MoveOperation Value
  | Operation OpCode Value "Value option"
  | MemoryInstr MemoryInstruction
  | OtherInstruction

datatype LocalKind = Parameter | Global bool | StackAllocation | Ordinary

text \<open>
  Modelled from the spec: a \<open>Local\<close> (Locals.h is not among the sources) has a kind tag
  (the argument of \<open>Global\<close> is \<open>isConstant\<close>), a type, a write-user list and a read-user
  list, and \<open>getBase\<close> resolves it to its ultimate origin local; the handle of that origin,
  the result of \<open>getBase(true)\<close>, is recorded with the local.
\<close>

record Local =
  kind :: LocalKind
  type :: DataType
  getBase :: nat
  writers :: "IntermediateInstruction list"
  readers :: "IntermediateInstruction list"

type_synonym Locals = "nat \<Rightarrow> Local"

text \<open>
  Modelled from the spec: a local resides in memory if it is a Global or a
  StackAllocation.
\<close>

definition residesInMemory :: "Local \<Rightarrow> bool" where
  "residesInMemory l = (case kind l of Global c \<Rightarrow> True | StackAllocation \<Rightarrow> True | _ \<Rightarrow> False)"

definition getUsers :: "Local \<Rightarrow> IntermediateInstruction list" where
  "getUsers l = writers l @ readers l"

section \<open>Tracing a local to memory\<close>

text \<open>
  A function of the source either returns a value, throws, or (by unbounded recursion)
  does not return: \<open>Some (Inr v)\<close>, \<open>Some (Inl failure)\<close> and \<open>None\<close>.
\<close>

type_synonym 'a outcome = "(Failure + 'a) option"

definition andThen :: "'a outcome \<Rightarrow> ('a \<Rightarrow> 'b outcome) \<Rightarrow> 'b outcome" where
  "andThen r f = (case r of None \<Rightarrow> None | Some (Inl e) \<Rightarrow> Some (Inl e) | Some (Inr x) \<Rightarrow> f x)"

text \<open>
  One call of the lambda that \<open>isDerivedFromMemory\<close> passes to \<open>forUsers\<close>: \<open>rec\<close> is the
  recursive call, \<open>allSources\<close> the current value of \<open>allSourcesDerivedFromMemory\<close>, and the
  result is its value after the call. \<open>assertArgument(1)\<close> throws when the operation has
  no second argument.
\<close>

fun checkWriter ::
  "(nat \<Rightarrow> bool outcome) \<Rightarrow> bool \<Rightarrow> IntermediateInstruction \<Rightarrow> bool outcome" where
  "checkWriter rec allSources (MoveOperation a) =
     (case checkLocal a of
        Some l \<Rightarrow> andThen (rec l) (\<lambda>b. Some (Inr (if \<not> b then False else allSources)))
      | None \<Rightarrow> Some (Inr False))"
| "checkWriter rec allSources (MemoryInstr m) = Some (Inr allSources)"
| "checkWriter rec allSources (Operation code a0 a1) =
     (if code \<noteq> OP_ADD \<and> code \<noteq> OP_SUB then Some (Inr False)
      else case a1 of
        None \<Rightarrow> Some (Inl (MissingArgument 1))
      | Some b \<Rightarrow>
          if checkLocal a0 \<noteq> None \<and> getPointerType (valueType a0) \<noteq> None
             \<and> getPointerType (valueType b) = None
          then Some (Inr allSources)
          else if checkLocal b \<noteq> None \<and> getPointerType (valueType a0) = None
             \<and> getPointerType (valueType b) \<noteq> None
          then Some (Inr allSources)
          else Some (Inr False))"
| "checkWriter rec allSources OtherInstruction = Some (Inr False)"

text \<open>\<open>forUsers(LocalUse::Type::WRITER, ...)\<close>: the lambda is called for each writer in turn.\<close>

fun forWriters ::
  "(nat \<Rightarrow> bool outcome) \<Rightarrow> bool \<Rightarrow> IntermediateInstruction list \<Rightarrow> bool outcome" where
  "forWriters rec allSources [] = Some (Inr allSources)"
| "forWriters rec allSources (u # us) =
     andThen (checkWriter rec allSources u) (\<lambda>b. forWriters rec b us)"

text \<open>
  \<open>isDerivedFromMemory\<close> recurses through move operations and need not return on a cycle
  of moves; the first argument bounds the depth of the recursion.
\<close>

fun isDerivedFromMemory :: "nat \<Rightarrow> Locals \<Rightarrow> nat \<Rightarrow> bool outcome" where
  "isDerivedFromMemory 0 ls l = None"
| "isDerivedFromMemory (Suc fuel) ls l =
     (let base = ls (getBase (ls l)) in
      if residesInMemory base \<or> kind base = Parameter then Some (Inr True)
      else forWriters (\<lambda>x. isDerivedFromMemory fuel ls x) True (writers (ls l)))"

definition checkMemoryLocation :: "nat \<Rightarrow> Locals \<Rightarrow> Value \<Rightarrow> unit outcome" where
  "checkMemoryLocation fuel ls val =
     (if getPointerType (valueType val) = None
      then Some (Inl (CompilationError LLVM_2_IR ''Operand needs to be a pointer''))
      else case checkLocal val of
        None \<Rightarrow> Some (Inl (CompilationError LLVM_2_IR
          ''Operand needs to refer to a memory location or a parameter containing one''))
      | Some l \<Rightarrow> andThen (isDerivedFromMemory fuel ls l) (\<lambda>b.
          if \<not> b then Some (Inl (CompilationError LLVM_2_IR
            ''Operand needs to refer to a memory location or a parameter containing one''))
          else Some (Inr ())))"

definition checkLocalValue :: "Locals \<Rightarrow> Value \<Rightarrow> unit outcome" where
  "checkLocalValue ls val =
     (case checkLocal val of
        Some l \<Rightarrow>
          if residesInMemory (ls l) \<or>
             (kind (ls l) = Parameter \<and>
               (getPointerType (type (ls l)) \<noteq> None \<or> getArrayType (type (ls l)) \<noteq> None))
          then Some (Inl (CompilationError LLVM_2_IR
            ''Operand needs to be a local value (local, register)''))
          else Some (Inr ())
      | None \<Rightarrow> Some (Inr ()))"

definition checkSingleValue :: "Value \<Rightarrow> unit outcome" where
  "checkSingleValue val =
     (if getLiteralValue val = Some 1 then Some (Inr ())
      else Some (Inl (CompilationError LLVM_2_IR ''Operand needs to the constant one'')))"

section \<open>Lowering into the VPM\<close>

text \<open>
  \<open>VPM_DEFAULT_SIZE\<close>, \<open>NUM_QPUS\<close>, \<open>DataType::getPhysicalWidth\<close> and
  \<open>VPM::getVPMStorageType\<close> are declared in headers that are not among the sources and are parameters of
  the model. Widths and sizes are unsigned 32-bit integers, so the product computed for
  a stack allocation wraps around.
\<close>

record Target =
  getPhysicalWidth :: "DataType \<Rightarrow> 32 word"
  getVPMStorageType :: "DataType \<Rightarrow> DataType"
  VPM_DEFAULT_SIZE :: "32 word"
  NUM_QPUS :: "32 word"

definition canMoveIntoVPM :: "Target \<Rightarrow> nat \<Rightarrow> Locals \<Rightarrow> Value \<Rightarrow> bool \<Rightarrow> bool outcome" where
  "canMoveIntoVPM tg fuel ls val isMemoryAddress =
     (if isMemoryAddress then
        andThen (checkMemoryLocation fuel ls val) (\<lambda>_.
          case checkLocal val of
            None \<Rightarrow> Some (Inl NullDereference)
          | Some l \<Rightarrow>
              let base = ls (getBase (ls l));
                  elementType = getElementType (type base)
              in
                if getStructType elementType \<noteq> None \<or>
                   (case getArrayType elementType of
                      Some (t, n) \<Rightarrow> getStructType t \<noteq> None
                    | None \<Rightarrow> False)
                then Some (Inr False)
                else
                  let inVPMType = getVPMStorageType tg elementType in
                  if getPhysicalWidth tg inVPMType > VPM_DEFAULT_SIZE tg then Some (Inr False)
                  else
                    (case kind base of
                       Global isConstant \<Rightarrow>
                         Some (Inr (isConstant \<or>
                           (case getPointerType (type base) of
                              Some (t, a) \<Rightarrow> a = LOCAL
                            | None \<Rightarrow> False)))
                     | Parameter \<Rightarrow> Some (Inr False)
                     | StackAllocation \<Rightarrow>
                         Some (Inr (getPhysicalWidth tg inVPMType * NUM_QPUS tg
                                      < VPM_DEFAULT_SIZE tg))
                     | Ordinary \<Rightarrow> Some (Inr False)))
      else
        (case checkLocal val of
           None \<Rightarrow> Some (Inr False)
         | Some l \<Rightarrow> Some (Inr (list_all (\<lambda>user. False) (getUsers (ls l))))))"

definition canMoveSourceIntoVPM :: "Target \<Rightarrow> nat \<Rightarrow> Locals \<Rightarrow> MemoryInstruction \<Rightarrow> bool outcome" where
  "canMoveSourceIntoVPM tg fuel ls i =
     andThen (if op i = READ \<or> op i = WRITE then checkSingleValue (getNumEntries i)
              else Some (Inr ()))
       (\<lambda>_. canMoveIntoVPM tg fuel ls (getSource i) (op i = COPY \<or> op i = READ))"

definition canMoveDestinationIntoVPM ::
  "Target \<Rightarrow> nat \<Rightarrow> Locals \<Rightarrow> MemoryInstruction \<Rightarrow> bool outcome" where
  "canMoveDestinationIntoVPM tg fuel ls i =
     andThen (if op i = READ \<or> op i = WRITE then checkSingleValue (getNumEntries i)
              else Some (Inr ()))
       (\<lambda>_. canMoveIntoVPM tg fuel ls (getDestination i) (op i \<noteq> READ))"

text \<open>
  The quantities of the eligibility table: the physical width of the type in which the
  origin's elements are stored in the VPM, and the address space of the origin's type.
\<close>

definition elementPhysicalWidth :: "Target \<Rightarrow> Local \<Rightarrow> 32 word" where
  "elementPhysicalWidth tg base =
     getPhysicalWidth tg (getVPMStorageType tg (getElementType (type base)))"

definition addressSpaceOf :: "Local \<Rightarrow> AddressSpace option" where
  "addressSpaceOf base = map_option snd (getPointerType (type base))"

definition structElements :: "Local \<Rightarrow> bool" where
  "structElements base =
     (getStructType (getElementType (type base)) \<noteq> None \<or>
      (case getArrayType (getElementType (type base)) of
         Some (t, n) \<Rightarrow> getStructType t \<noteq> None
       | None \<Rightarrow> False))"

section \<open>Derived queries of a memory instruction\<close>

text \<open>\<open>value.local()->getBase(true)\<close>: the handle of the origin of a value's local.\<close>

definition baseOf :: "Locals \<Rightarrow> Value \<Rightarrow> nat outcome" where
  "baseOf ls val =
     (case checkLocal val of
        None \<Rightarrow> Some (Inl NullDereference)
      | Some l \<Rightarrow> Some (Inr (getBase (ls l))))"

definition isConstantGlobal :: "Local \<Rightarrow> bool" where
  "isConstantGlobal l = (case kind l of Global isConstant \<Rightarrow> isConstant | _ \<Rightarrow> False)"

definition accessesConstantGlobal :: "nat \<Rightarrow> Locals \<Rightarrow> MemoryInstruction \<Rightarrow> bool outcome" where
  "accessesConstantGlobal fuel ls i =
     (case op i of
        COPY \<Rightarrow>
          andThen (checkMemoryLocation fuel ls (getSource i)) (\<lambda>_.
          andThen (checkMemoryLocation fuel ls (getDestination i)) (\<lambda>_.
          andThen (baseOf ls (getSource i)) (\<lambda>s.
            if isConstantGlobal (ls s) then Some (Inr True)
            else andThen (baseOf ls (getDestination i)) (\<lambda>d.
              Some (Inr (isConstantGlobal (ls d)))))))
      | FILL \<Rightarrow>
          andThen (checkMemoryLocation fuel ls (getDestination i)) (\<lambda>_.
          andThen (baseOf ls (getDestination i)) (\<lambda>d. Some (Inr (isConstantGlobal (ls d)))))
      | READ \<Rightarrow>
          andThen (checkMemoryLocation fuel ls (getSource i)) (\<lambda>_.
          andThen (baseOf ls (getSource i)) (\<lambda>s. Some (Inr (isConstantGlobal (ls s)))))
      | WRITE \<Rightarrow>
          andThen (checkMemoryLocation fuel ls (getDestination i)) (\<lambda>_.
          andThen (baseOf ls (getDestination i)) (\<lambda>d. Some (Inr (isConstantGlobal (ls d))))))"

definition accessesStackAllocation :: "nat \<Rightarrow> Locals \<Rightarrow> MemoryInstruction \<Rightarrow> bool outcome" where
  "accessesStackAllocation fuel ls i =
     (case op i of
        COPY \<Rightarrow>
          andThen (checkMemoryLocation fuel ls (getSource i)) (\<lambda>_.
          andThen (checkMemoryLocation fuel ls (getDestination i)) (\<lambda>_.
          andThen (baseOf ls (getSource i)) (\<lambda>s.
            if kind (ls s) = StackAllocation then Some (Inr True)
            else andThen (baseOf ls (getDestination i)) (\<lambda>d.
              Some (Inr (kind (ls d) = StackAllocation))))))
      | FILL \<Rightarrow>
          andThen (checkMemoryLocation fuel ls (getDestination i)) (\<lambda>_.
          andThen (baseOf ls (getDestination i)) (\<lambda>d.
            Some (Inr (kind (ls d) = StackAllocation))))
      | READ \<Rightarrow>
          andThen (checkMemoryLocation fuel ls (getSource i)) (\<lambda>_.
          andThen (baseOf ls (getSource i)) (\<lambda>s.
            Some (Inr (kind (ls s) = StackAllocation))))
      | WRITE \<Rightarrow>
          andThen (checkMemoryLocation fuel ls (getDestination i)) (\<lambda>_.
          andThen (baseOf ls (getDestination i)) (\<lambda>d.
            Some (Inr (kind (ls d) = StackAllocation)))))"

definition isGlobalWithLocalAddressSpace :: "Local \<Rightarrow> bool outcome" where
  "isGlobalWithLocalAddressSpace l =
     (case kind l of
        Global isConstant \<Rightarrow>
          (case getPointerType (type l) of
             None \<Rightarrow> Some (Inl NullDereference)
           | Some (t, a) \<Rightarrow> Some (Inr (a = LOCAL)))
      | _ \<Rightarrow> Some (Inr False))"

definition accessesLocalMemory :: "nat \<Rightarrow> Locals \<Rightarrow> MemoryInstruction \<Rightarrow> bool outcome" where
  "accessesLocalMemory fuel ls i =
     (case op i of
        COPY \<Rightarrow>
          andThen (checkMemoryLocation fuel ls (getSource i)) (\<lambda>_.
          andThen (checkMemoryLocation fuel ls (getDestination i)) (\<lambda>_.
          andThen (baseOf ls (getSource i)) (\<lambda>s.
          andThen (isGlobalWithLocalAddressSpace (ls s)) (\<lambda>b.
            if b then Some (Inr True)
            else andThen (baseOf ls (getDestination i)) (\<lambda>d.
              isGlobalWithLocalAddressSpace (ls d))))))
      | FILL \<Rightarrow>
          andThen (checkMemoryLocation fuel ls (getDestination i)) (\<lambda>_.
          andThen (baseOf ls (getDestination i)) (\<lambda>d. isGlobalWithLocalAddressSpace (ls d)))
      | READ \<Rightarrow>
          andThen (checkMemoryLocation fuel ls (getSource i)) (\<lambda>_.
          andThen (baseOf ls (getSource i)) (\<lambda>s. isGlobalWithLocalAddressSpace (ls s)))
      | WRITE \<Rightarrow>
          andThen (checkMemoryLocation fuel ls (getDestination i)) (\<lambda>_.
          andThen (baseOf ls (getDestination i)) (\<lambda>d. isGlobalWithLocalAddressSpace (ls d))))"

text \<open>
  The sized pointed-to type shared by \<open>getSourceElementType\<close> and
  \<open>getDestinationElementType\<close>: the element type itself, or an array of as many elements
  as the literal count says.
\<close>

definition sizedElementType :: "bool \<Rightarrow> Value \<Rightarrow> DataType \<Rightarrow> DataType outcome" where
  "sizedElementType sizedType numEntries elementType =
     (if \<not> sizedType then Some (Inr elementType)
      else case getLiteralValue numEntries of
        None \<Rightarrow> Some (Inl (CompilationError GENERAL
          ''Cannot calculate type-size from dynamically sized memory-operation''))
      | Some n \<Rightarrow> Some (Inr (toArrayType elementType n)))"

definition getSourceElementType ::
  "nat \<Rightarrow> Locals \<Rightarrow> MemoryInstruction \<Rightarrow> bool \<Rightarrow> DataType outcome" where
  "getSourceElementType fuel ls i sizedType =
     (case op i of
        COPY \<Rightarrow>
          andThen (checkMemoryLocation fuel ls (getSource i)) (\<lambda>_.
            sizedElementType sizedType (getNumEntries i)
              (getElementType (valueType (getSource i))))
      | FILL \<Rightarrow>
          andThen (checkLocalValue ls (getSource i)) (\<lambda>_.
            Some (Inr (valueType (getSource i))))
      | READ \<Rightarrow>
          andThen (checkMemoryLocation fuel ls (getSource i)) (\<lambda>_.
          andThen (checkSingleValue (getNumEntries i)) (\<lambda>_.
            Some (Inr (getElementType (valueType (getSource i))))))
      | WRITE \<Rightarrow>
          andThen (checkLocalValue ls (getSource i)) (\<lambda>_.
          andThen (checkSingleValue (getNumEntries i)) (\<lambda>_.
            Some (Inr (valueType (getSource i))))))"

definition getDestinationElementType ::
  "nat \<Rightarrow> Locals \<Rightarrow> MemoryInstruction \<Rightarrow> bool \<Rightarrow> DataType outcome" where
  "getDestinationElementType fuel ls i sizedType =
     (case op i of
        COPY \<Rightarrow>
          andThen (checkMemoryLocation fuel ls (getDestination i)) (\<lambda>_.
            sizedElementType sizedType (getNumEntries i)
              (getElementType (valueType (getDestination i))))
      | FILL \<Rightarrow>
          andThen (checkMemoryLocation fuel ls (getDestination i)) (\<lambda>_.
            sizedElementType sizedType (getNumEntries i)
              (getElementType (valueType (getDestination i))))
      | READ \<Rightarrow>
          andThen (checkLocalValue ls (getDestination i)) (\<lambda>_.
          andThen (checkSingleValue (getNumEntries i)) (\<lambda>_.
            Some (Inr (valueType (getDestination i)))))
      | WRITE \<Rightarrow>
          andThen (checkMemoryLocation fuel ls (getDestination i)) (\<lambda>_.
          andThen (checkSingleValue (getNumEntries i)) (\<lambda>_.
            Some (Inr (getElementType (valueType (getDestination i)))))))"

definition getMemoryAreas :: "nat \<Rightarrow> Locals \<Rightarrow> MemoryInstruction \<Rightarrow> nat set outcome" where
  "getMemoryAreas fuel ls i =
     (case op i of
        COPY \<Rightarrow>
          andThen (checkMemoryLocation fuel ls (getSource i)) (\<lambda>_.
          andThen (checkMemoryLocation fuel ls (getDestination i)) (\<lambda>_.
          andThen (baseOf ls (getSource i)) (\<lambda>s.
          andThen (baseOf ls (getDestination i)) (\<lambda>d. Some (Inr {s, d})))))
      | FILL \<Rightarrow>
          andThen (checkMemoryLocation fuel ls (getDestination i)) (\<lambda>_.
          andThen (baseOf ls (getDestination i)) (\<lambda>d. Some (Inr {d})))
      | READ \<Rightarrow>
          andThen (checkMemoryLocation fuel ls (getSource i)) (\<lambda>_.
          andThen (baseOf ls (getSource i)) (\<lambda>s. Some (Inr {s})))
      | WRITE \<Rightarrow>
          andThen (checkMemoryLocation fuel ls (getDestination i)) (\<lambda>_.
          andThen (baseOf ls (getDestination i)) (\<lambda>d. Some (Inr {d}))))"

section \<open>Control-flow loops\<close>

text \<open>
  \<open>ControlFlowLoop.h\<close> declares the loop class and its queries; their bodies
  (ControlFlowLoop.cpp) and the loop detection (ControlFlowGraph.cpp) are not among the
  sources. A CFG node is a natural number and the CFG is the list of its edges. A
  \<open>ControlFlowLoop\<close> is the set of its nodes (the class derives from
  \<open>FastSet<const CFGNode*>\<close>), here a list, together with its back edge.
\<close>

record ControlFlowLoop =
  loopNodes :: "nat list"
  backEdge :: "nat \<times> nat"

definition predecessors :: "(nat \<times> nat) list \<Rightarrow> nat \<Rightarrow> nat list" where
  "predecessors edges x = map fst (filter (\<lambda>e. snd e = x) edges)"

text \<open>
  Modelled from the spec: the natural loop detector (section 4.1), which is not among the
  sources. For a back edge \<open>m \<rightarrow> n\<close> it searches backwards from \<open>m\<close>, stops the
  exploration at \<open>n\<close>, keeps only nodes dominated by \<open>n\<close> (the predicate \<open>dominated\<close>,
  computed outside), and adds \<open>n\<close> itself as the header. \<open>collectLoop\<close> is the search with
  its work list and the nodes found so far.
\<close>

function collectLoop ::
  "(nat \<times> nat) list \<Rightarrow> (nat \<Rightarrow> bool) \<Rightarrow> nat list \<Rightarrow> nat list \<Rightarrow> nat list" where
  "collectLoop edges dominated [] visited = visited"
| "collectLoop edges dominated (x # work) visited =
     (if x \<in> set visited \<or> \<not> dominated x then collectLoop edges dominated work visited
      else collectLoop edges dominated (predecessors edges x @ work) (x # visited))"
  by pat_completeness auto
termination
proof (relation "measures [\<lambda>(edges, dominated, work, visited).
                    card ((fst ` set edges \<union> set work) - set visited),
                  \<lambda>(edges, dominated, work, visited). length work]", goal_cases)
  case 1
  then show ?case by simp
next
  case (2 edges dominated x work visited)
  have "(fst ` set edges \<union> set work) - set visited
          \<subseteq> (fst ` set edges \<union> set (x # work)) - set visited"
    by auto
  then have "card ((fst ` set edges \<union> set work) - set visited)
          \<le> card ((fst ` set edges \<union> set (x # work)) - set visited)"
    by (intro card_mono) auto
  then show ?case by auto
next
  case (3 edges dominated x work visited)
  then have x: "x \<notin> set visited" by simp
  have sub: "set (predecessors edges x) \<subseteq> fst ` set edges"
    by (auto simp: predecessors_def)
  have "(fst ` set edges \<union> set (predecessors edges x @ work)) - set (x # visited)
          \<subset> (fst ` set edges \<union> set (x # work)) - set visited"
    using x sub by auto
  then have "card ((fst ` set edges \<union> set (predecessors edges x @ work)) - set (x # visited))
          < card ((fst ` set edges \<union> set (x # work)) - set visited)"
    by (intro psubset_card_mono) auto
  then show ?case by simp
qed








section \<open>The loop inclusion tree\<close>

text \<open>
  Modelled from the spec: \<open>ControlFlowLoop::includes\<close>, whose body is not among the
  sources (\<open>includes\<close> is a keyword of Isabelle, hence the name). A loop includes another
  loop iff its node set is a strict superset of the other's.
\<close>

definition includesLoop :: "ControlFlowLoop \<Rightarrow> ControlFlowLoop \<Rightarrow> bool" where
  "includesLoop A B = (set (loopNodes B) \<subset> set (loopNodes A))"

text \<open>
  The tree (a forest) as a graph: its nodes, one per loop, and its edges from a loop to the
  loops it directly includes.
\<close>

record LoopInclusionTree =
  treeNodes :: "ControlFlowLoop list"
  treeEdges :: "(ControlFlowLoop \<times> ControlFlowLoop) list"

text \<open>
  Modelled from the spec: \<open>createLoopInclusingTree\<close>, whose body is not among the
  sources (section 4.2). The parent of \<open>B\<close> is the innermost loop \<open>A\<close> that includes \<open>B\<close>:
  no other loop of the list lies strictly between them. Loops with no including loop are
  roots.
\<close>

definition innermostIncluding ::
  "ControlFlowLoop list \<Rightarrow> ControlFlowLoop \<Rightarrow> ControlFlowLoop \<Rightarrow> bool" where
  "innermostIncluding loops A B =
     (includesLoop A B \<and> \<not> list_ex (\<lambda>C. includesLoop A C \<and> includesLoop C B) loops)"

definition createLoopInclusingTree :: "ControlFlowLoop list \<Rightarrow> LoopInclusionTree" where
  "createLoopInclusingTree loops =
     \<lparr> treeNodes = loops,
       treeEdges = concat (map (\<lambda>A. map (\<lambda>B. (A, B))
                     (filter (innermostIncluding loops A) loops)) loops) \<rparr>"

definition children :: "LoopInclusionTree \<Rightarrow> ControlFlowLoop \<Rightarrow> ControlFlowLoop list" where
  "children T A = map snd (filter (\<lambda>e. fst e = A) (treeEdges T))"

definition parents :: "LoopInclusionTree \<Rightarrow> ControlFlowLoop \<Rightarrow> ControlFlowLoop list" where
  "parents T B = map fst (filter (\<lambda>e. snd e = B) (treeEdges T))"

definition roots :: "LoopInclusionTree \<Rightarrow> ControlFlowLoop list" where
  "roots T = filter (\<lambda>B. parents T B = []) (treeNodes T)"

section \<open>Induction variables\<close>

text \<open>
  Modelled from the spec: the comparison of a repeat condition (a name of type
  \<open>const char*\<close> in the header, the names being declared outside the sources) is the
  strict less-than, the non-strict less-or-equal, or another comparison.
\<close>

datatype Comparison = COMP_LT | COMP_LE | COMP_OTHER string

record InductionVariable =
  local :: nat
  initialAssignment :: IntermediateInstruction
  inductionStep :: IntermediateInstruction
  repeatCondition :: "(Comparison \<times> Value) option"
  conditionCheckedBeforeStep :: bool

text \<open>
  Modelled from the spec: the queries of \<open>InductionVariable\<close>, whose bodies are not
  among the sources (section 4.3). Each is absent when the operand it needs is not a
  literal. The lower bound is the literal value of the initial assignment, the upper bound
  the literal compared value of the repeat condition, the step the literal operand of the
  update operation with its sign (negated for a subtraction). The range is the distance
  between the bounds, read as the unsigned numbers that the header's result type
  \<open>unsigned\<close> holds.
\<close>

definition getLowerBound :: "InductionVariable \<Rightarrow> 32 word option" where
  "getLowerBound iv =
     (case initialAssignment iv of MoveOperation v \<Rightarrow> getLiteralValue v | _ \<Rightarrow> None)"

definition getUpperBound :: "InductionVariable \<Rightarrow> 32 word option" where
  "getUpperBound iv =
     (case repeatCondition iv of Some (c, v) \<Rightarrow> getLiteralValue v | None \<Rightarrow> None)"

definition getStep :: "InductionVariable \<Rightarrow> 32 word option" where
  "getStep iv =
     (case inductionStep iv of
        Operation code a0 (Some a1) \<Rightarrow>
          (if code = OP_ADD
           then (case getLiteralValue a1 of Some s \<Rightarrow> Some s | None \<Rightarrow> getLiteralValue a0)
           else if code = OP_SUB then map_option uminus (getLiteralValue a1)
           else None)
      | _ \<Rightarrow> None)"

definition getRange :: "InductionVariable \<Rightarrow> nat option" where
  "getRange iv =
     (case (getLowerBound iv, getUpperBound iv) of
        (Some lower, Some upper) \<Rightarrow> Some (nat \<bar>uint upper - uint lower\<bar>)
      | _ \<Rightarrow> None)"

text \<open>
  Modelled from the spec: the iteration count is the range divided by the magnitude of
  the step, with an adjustment that depends on the comparison and on whether the condition
  is checked before the step. The spec fixes the adjustment only for a strict less-than
  checked before the step, where it is zero; for the other combinations it is the parameter
  \<open>other\<close>. Without a repeat condition, or with a zero step, the count is absent.
\<close>

definition adjustment :: "(Comparison \<Rightarrow> bool \<Rightarrow> int) \<Rightarrow> Comparison \<Rightarrow> bool \<Rightarrow> int" where
  "adjustment other c checkedBeforeStep =
     (if c = COMP_LT \<and> checkedBeforeStep then 0 else other c checkedBeforeStep)"

definition getIterationCount ::
  "(Comparison \<Rightarrow> bool \<Rightarrow> int) \<Rightarrow> InductionVariable \<Rightarrow> nat option" where
  "getIterationCount other iv =
     (case (getRange iv, getStep iv, repeatCondition iv) of
        (Some distance, Some step, Some (c, v)) \<Rightarrow>
          if step = 0 then None
          else Some (nat (int (distance div nat \<bar>sint step\<bar>)
                 + adjustment other c (conditionCheckedBeforeStep iv)))
      | _ \<Rightarrow> None)"

section \<open>Predicates used in the statements\<close>

text \<open>
  The origin of a local is one of the three recognized kinds: a Global, a
  StackAllocation or a Parameter.
\<close>

definition originInMemory :: "Locals \<Rightarrow> nat \<Rightarrow> bool" where
  "originInMemory ls l =
     (case kind (ls (getBase (ls l))) of Ordinary \<Rightarrow> False | _ \<Rightarrow> True)"

text \<open>
  An addition or subtraction with exactly one pointer-typed operand, that operand being
  a local.
\<close>

fun pointerOffsetOperation :: "IntermediateInstruction \<Rightarrow> bool" where
  "pointerOffsetOperation (Operation code a0 (Some b)) =
     ((code = OP_ADD \<or> code = OP_SUB) \<and>
      ((checkLocal a0 \<noteq> None \<and> getPointerType (valueType a0) \<noteq> None
          \<and> getPointerType (valueType b) = None) \<or>
       (checkLocal b \<noteq> None \<and> getPointerType (valueType a0) = None
          \<and> getPointerType (valueType b) \<noteq> None)))"
| "pointerOffsetOperation _ = False"

fun isMemoryInstruction :: "IntermediateInstruction \<Rightarrow> bool" where
  "isMemoryInstruction (MemoryInstr m) = True"
| "isMemoryInstruction _ = False"

text \<open>The call threw a compilation error instead of returning a result.\<close>

fun throwsCompilationError :: "'a outcome \<Rightarrow> bool" where
  "throwsCompilationError (Some (Inl (CompilationError step msg))) = True"
| "throwsCompilationError (Some (Inl (MissingArgument n))) = True"
| "throwsCompilationError _ = False"

text \<open>
  The operand is not a pointer-typed local that \<open>isDerivedFromMemory\<close> traces to a
  recognized origin: it is not of pointer type, or not a local, or a local classified as
  not derived from memory.
\<close>

definition notMemoryLocation :: "nat \<Rightarrow> Locals \<Rightarrow> Value \<Rightarrow> bool" where
  "notMemoryLocation fuel ls val =
     (getPointerType (valueType val) = None \<or>
      (case checkLocal val of
         None \<Rightarrow> True
       | Some l \<Rightarrow> isDerivedFromMemory fuel ls l = Some (Inr False)))"

text \<open>
  The memory operands that \<open>accessesConstantGlobal\<close>, \<open>accessesStackAllocation\<close>,
  \<open>accessesLocalMemory\<close> and \<open>getMemoryAreas\<close> validate for each tag: source then
  destination for COPY (the destination is reached once the validation of the source has
  returned or thrown), the source for READ, the destination for FILL and WRITE.
\<close>

definition validatedByTag :: "nat \<Rightarrow> Locals \<Rightarrow> MemoryInstruction \<Rightarrow> Value \<Rightarrow> bool" where
  "validatedByTag fuel ls i val =
     (case op i of
        COPY \<Rightarrow> val = getSource i \<or>
          (val = getDestination i \<and> checkMemoryLocation fuel ls (getSource i) \<noteq> None)
      | FILL \<Rightarrow> val = getDestination i
      | READ \<Rightarrow> val = getSource i
      | WRITE \<Rightarrow> val = getDestination i)"

text \<open>
  Modelled from the spec: the user lists of a local hold the instructions that write and
  read it (section 3); the constructor of an instruction and \<open>setArgument\<close>
  (IntermediateInstruction.cpp, not among the sources) enter the instruction into the users
  of the locals among its output and its arguments. \<open>isUserOf\<close> says so for one
  operand of a memory instruction: a value that is no local has no user list to be in.
\<close>

definition isUserOf :: "Locals \<Rightarrow> MemoryInstruction \<Rightarrow> Value \<Rightarrow> bool" where
  "isUserOf ls i val =
     (case checkLocal val of
        None \<Rightarrow> True
      | Some l \<Rightarrow> MemoryInstr i \<in> set (getUsers (ls l)))"

section \<open>Example inputs\<close>

definition TYPE_INT32 :: DataType where
  "TYPE_INT32 = SimpleType 32"

definition intPointer :: DataType where
  "intPointer = PointerType (SimpleType 32) GLOBAL"

definition plainLocal :: "nat \<Rightarrow> Local" where
  "plainLocal n = \<lparr> kind = Ordinary, type = TYPE_INT32, getBase = n, writers = [], readers = [] \<rparr>"

text \<open>
  A method with seven locals of interest:
  \<^item> 0: a pointer \<open>p\<close> computed by a multiplication, read by the instructions defining 1 and 2;
  \<^item> 1: \<open>x = p + 4\<close>;
  \<^item> 2: \<open>y = p + x\<close>;
  \<^item> 3: a pointer parameter;
  \<^item> 4: the destination of a READ from the parameter;
  \<^item> 5: a local without any user;
  \<^item> 6: a stack allocation of 32-bit integers.
\<close>

definition loadFromParameter :: MemoryInstruction where
  "loadFromParameter =
     \<lparr> op = READ, getDestination = LocalValue 4 TYPE_INT32,
       getSource = LocalValue 3 intPointer, getNumEntries = INT_ONE \<rparr>"

definition exampleLocals :: Locals where
  "exampleLocals =
     plainLocal
       (0 := \<lparr> kind = Ordinary, type = intPointer, getBase = 0,
               writers = [Operation (OP_OTHER ''mul'') (LocalValue 7 TYPE_INT32)
                            (Some (LiteralValue 4 TYPE_INT32))],
               readers = [Operation OP_ADD (LocalValue 0 intPointer)
                            (Some (LiteralValue 4 TYPE_INT32)),
                          Operation OP_ADD (LocalValue 0 intPointer)
                            (Some (LocalValue 1 intPointer))] \<rparr>,
        1 := \<lparr> kind = Ordinary, type = intPointer, getBase = 1,
               writers = [Operation OP_ADD (LocalValue 0 intPointer)
                            (Some (LiteralValue 4 TYPE_INT32))],
               readers = [Operation OP_ADD (LocalValue 0 intPointer)
                            (Some (LocalValue 1 intPointer))] \<rparr>,
        2 := \<lparr> kind = Ordinary, type = intPointer, getBase = 2,
               writers = [Operation OP_ADD (LocalValue 0 intPointer)
                            (Some (LocalValue 1 intPointer))],
               readers = [] \<rparr>,
        3 := \<lparr> kind = Parameter, type = intPointer, getBase = 3,
               writers = [], readers = [MemoryInstr loadFromParameter] \<rparr>,
        4 := \<lparr> kind = Ordinary, type = TYPE_INT32, getBase = 4,
               writers = [MemoryInstr loadFromParameter], readers = [] \<rparr>,
        6 := \<lparr> kind = StackAllocation, type = PointerType TYPE_INT32 PRIVATE, getBase = 6,
               writers = [], readers = [] \<rparr>)"

text \<open>A WRITE of the unused local 5 through the computed pointer 0.\<close>

definition storeThroughComputedPointer :: MemoryInstruction where
  "storeThroughComputedPointer =
     \<lparr> op = WRITE, getDestination = LocalValue 0 intPointer,
       getSource = LocalValue 5 TYPE_INT32, getNumEntries = INT_ONE \<rparr>"

text \<open>A READ through the computed pointer 0.\<close>

definition loadThroughComputedPointer :: MemoryInstruction where
  "loadThroughComputedPointer =
     \<lparr> op = READ, getDestination = LocalValue 5 TYPE_INT32,
       getSource = LocalValue 0 intPointer, getNumEntries = INT_ONE \<rparr>"

text \<open>
  A FILL of sixteen copies of local 1 into the memory of the pointer parameter 0, entered
  into the readers of both locals.
\<close>

definition fillFromLocal :: MemoryInstruction where
  "fillFromLocal =
     \<lparr> op = FILL, getDestination = LocalValue 0 intPointer,
       getSource = LocalValue 1 TYPE_INT32, getNumEntries = LiteralValue 16 TYPE_INT32 \<rparr>"

definition fillLocals :: Locals where
  "fillLocals =
     plainLocal
       (0 := \<lparr> kind = Parameter, type = intPointer, getBase = 0,
               writers = [], readers = [MemoryInstr fillFromLocal] \<rparr>,
        1 := \<lparr> kind = Ordinary, type = TYPE_INT32, getBase = 1,
               writers = [Operation OP_ADD (LocalValue 2 TYPE_INT32)
                            (Some (LiteralValue 1 TYPE_INT32))],
               readers = [MemoryInstr fillFromLocal] \<rparr>)"

text \<open>
  A target with a scratchpad of 4096 bytes shared by 12 QPUs, where a type is stored in
  the VPM as it is and a scalar of \<open>n\<close> bits is \<open>n div 8\<close> bytes wide.
\<close>

fun byteWidth :: "DataType \<Rightarrow> 32 word" where
  "byteWidth (SimpleType n) = of_nat (n div 8)"
| "byteWidth (PointerType t a) = 4"
| "byteWidth (ArrayType t n) = byteWidth t * of_nat n"
| "byteWidth (StructType ts) = sum_list (map byteWidth ts)"

definition exampleTarget :: Target where
  "exampleTarget =
     \<lparr> getPhysicalWidth = byteWidth, getVPMStorageType = (\<lambda>t. t),
       VPM_DEFAULT_SIZE = 4096, NUM_QPUS = 12 \<rparr>"


text \<open>Four loops: A includes B, B includes C, A includes D; D is unrelated to B and C.\<close>

definition loopA :: ControlFlowLoop where
  "loopA = \<lparr> loopNodes = [1, 2, 3, 4, 5], backEdge = (5, 1) \<rparr>"

definition loopB :: ControlFlowLoop where
  "loopB = \<lparr> loopNodes = [2, 3, 4], backEdge = (4, 2) \<rparr>"

definition loopC :: ControlFlowLoop where
  "loopC = \<lparr> loopNodes = [3], backEdge = (3, 3) \<rparr>"

definition loopD :: ControlFlowLoop where
  "loopD = \<lparr> loopNodes = [5], backEdge = (5, 5) \<rparr>"

text \<open>The induction variable of \<open>for (i = 0; i < 10; ++i)\<close>, local 0.\<close>

definition countingLoopVariable :: InductionVariable where
  "countingLoopVariable =
     \<lparr> local = 0,
       initialAssignment = MoveOperation (LiteralValue 0 TYPE_INT32),
       inductionStep = Operation OP_ADD (LocalValue 0 TYPE_INT32)
                         (Some (LiteralValue 1 TYPE_INT32)),
       repeatCondition = Some (COMP_LT, LiteralValue 10 TYPE_INT32),
       conditionCheckedBeforeStep = True \<rparr>"

section \<open>Theorems\<close>

lemma valueEquals_INT_ONE: "valueEquals v INT_ONE = (getLiteralValue v = Some 1)"
  by (cases v) (simp_all add: INT_ONE_def)

text \<open>
  Claim C4. Constructing a memory instruction with tag READ or WRITE and a count that is
  not the literal 1 fails with a compilation error (so a WRITE with the literal 2 as count
  fails), and constructing one with tag COPY or FILL succeeds for every count, literal or
  not, giving the instruction with exactly the operands passed.
\<close>

theorem newMemoryInstruction_count:
  "((opTag = READ \<or> opTag = WRITE) \<and> getLiteralValue n \<noteq> Some 1 \<longrightarrow>
      newMemoryInstruction opTag d s n =
        Inl (CompilationError LLVM_2_IR
               ''Can only use the entry count for copying or filling memory''))
   \<and> newMemoryInstruction WRITE d s (LiteralValue 2 t) =
        Inl (CompilationError LLVM_2_IR
               ''Can only use the entry count for copying or filling memory'')
   \<and> (opTag = COPY \<or> opTag = FILL \<longrightarrow>
        newMemoryInstruction opTag d s n =
          Inr \<lparr> op = opTag, getDestination = d, getSource = s, getNumEntries = n \<rparr>)"
  by (auto simp: newMemoryInstruction_def valueEquals_INT_ONE)

theorem newMemoryInstruction_count_witness:
  "newMemoryInstruction READ (LocalValue 0 (SimpleType 32))
       (LocalValue 1 (PointerType (SimpleType 32) GLOBAL)) (LocalValue 2 (SimpleType 32)) =
     Inl (CompilationError LLVM_2_IR
            ''Can only use the entry count for copying or filling memory'')
   \<and> newMemoryInstruction COPY (LocalValue 0 (PointerType (SimpleType 32) GLOBAL))
       (LocalValue 1 (PointerType (SimpleType 32) GLOBAL)) (LocalValue 2 (SimpleType 32)) =
     Inr \<lparr> op = COPY, getDestination = LocalValue 0 (PointerType (SimpleType 32) GLOBAL),
           getSource = LocalValue 1 (PointerType (SimpleType 32) GLOBAL),
           getNumEntries = LocalValue 2 (SimpleType 32) \<rparr>"
  using newMemoryInstruction_count [of READ "LocalValue 2 (SimpleType 32)"
      "LocalValue 0 (SimpleType 32)" "LocalValue 1 (PointerType (SimpleType 32) GLOBAL)"]
    newMemoryInstruction_count [of COPY "LocalValue 2 (SimpleType 32)"
      "LocalValue 0 (PointerType (SimpleType 32) GLOBAL)"
      "LocalValue 1 (PointerType (SimpleType 32) GLOBAL)"]
  by simp

text \<open>
  Claim C10. Every memory instruction, whatever its tag and operands, reports side effects
  and is never normalized; so no memory instruction, not even a READ with invariant
  operands, is a candidate for loop-invariant relocation.
\<close>

theorem memory_instruction_side_effects:
  "hasSideEffects i = True \<and> isNormalized i = False \<and> relocationCandidate operandsInvariant i = False"
  by (simp add: hasSideEffects_def isNormalized_def relocationCandidate_def)


subsection \<open>Helper lemmas\<close>

lemma andThen_simps:
  "andThen None f = None"
  "andThen (Some (Inl e)) f = Some (Inl e)"
  "andThen (Some (Inr x)) f = f x"
  by (simp_all add: andThen_def)

lemma forWriters_neutral:
  "\<forall>u\<in>set us. checkWriter rec acc u = Some (Inr acc) \<Longrightarrow>
     forWriters rec acc us = Some (Inr acc)"
  by (induction us) (simp_all add: andThen_simps)

lemma checkWriter_pointerOffset:
  "pointerOffsetOperation u \<Longrightarrow> checkWriter rec acc u = Some (Inr acc)"
  by (induction u rule: pointerOffsetOperation.induct) auto

lemma checkWriter_memory:
  "isMemoryInstruction u \<Longrightarrow> checkWriter rec acc u = Some (Inr acc)"
  by (cases u) simp_all

lemma originInMemory_iff:
  "originInMemory ls l =
     (residesInMemory (ls (getBase (ls l))) \<or> kind (ls (getBase (ls l))) = Parameter)"
  by (simp add: originInMemory_def residesInMemory_def split: LocalKind.splits)

lemma checkMemoryLocation_ok_iff:
  "checkMemoryLocation fuel ls val = Some (Inr ()) \<longleftrightarrow>
     (\<exists>l t. val = LocalValue l t \<and> getPointerType t \<noteq> None
        \<and> isDerivedFromMemory fuel ls l = Some (Inr True))"
  by (cases val) (auto simp: checkMemoryLocation_def andThen_def split: option.splits sum.splits)

lemma stack_product_no_wrap:
  fixes w n c :: "32 word"
  assumes "\<not> c < w" and "unat c * unat n < 2 ^ 32"
  shows "(w * n < c) = (unat w * unat n < unat c)"
proof -
  from assms(1) have "unat w \<le> unat c" by (simp add: word_le_nat_alt not_less)
  then have "unat w * unat n \<le> unat c * unat n" by (rule mult_le_mono1)
  then have "unat w * unat n < 2 ^ 32" using assms(2) by (rule le_less_trans)
  then have "unat (w * n) = unat w * unat n"
    by (simp add: unat_word_ariths)
  then show ?thesis by (simp add: word_less_nat_alt)
qed

lemmas exampleLocals_simps =
  exampleLocals_def plainLocal_def loadFromParameter_def intPointer_def TYPE_INT32_def
  INT_ONE_def TYPE_INT8_def originInMemory_def residesInMemory_def andThen_simps

subsection \<open>Eligibility of an address operand\<close>

text \<open>
  Claim C1. Let an address operand pass the memory-location validation, let \<open>base\<close> be
  the origin of its local, and let the scratchpad capacity times the number of QPUs fit
  into 32 bits. Then \<open>canMoveIntoVPM\<close> returns the value of the eligibility table: the
  operand is eligible iff the element type of the origin is neither a struct nor an array
  of structs, the physical width of an element does not exceed the scratchpad capacity, and
  the origin is a constant Global, or a non-constant Global in the local address space, or
  a StackAllocation with element width times \<open>NUM_QPUS\<close> strictly below the capacity. A
  Parameter is never eligible.
\<close>

theorem canMoveIntoVPM_address_table:
  assumes valid: "checkMemoryLocation fuel ls val = Some (Inr ())"
    and loc: "checkLocal val = Some l"
    and fits: "unat (VPM_DEFAULT_SIZE tg) * unat (NUM_QPUS tg) < 2 ^ 32"
    and base: "base = ls (getBase (ls l))"
  shows "canMoveIntoVPM tg fuel ls val True =
     Some (Inr (\<not> structElements base
       \<and> \<not> VPM_DEFAULT_SIZE tg < elementPhysicalWidth tg base
       \<and> (case kind base of
            Global isConstant \<Rightarrow> isConstant \<or> addressSpaceOf base = Some LOCAL
          | Parameter \<Rightarrow> False
          | StackAllocation \<Rightarrow>
              unat (elementPhysicalWidth tg base) * unat (NUM_QPUS tg)
                < unat (VPM_DEFAULT_SIZE tg)
          | Ordinary \<Rightarrow> False)))"
proof (cases "structElements base \<or> VPM_DEFAULT_SIZE tg < elementPhysicalWidth tg base")
  case True
  then show ?thesis using valid loc base
    by (auto simp: canMoveIntoVPM_def andThen_simps structElements_def
        elementPhysicalWidth_def Let_def)
next
  case False
  then have ns: "\<not> structElements base"
    and nw: "\<not> VPM_DEFAULT_SIZE tg < elementPhysicalWidth tg base"
    by simp_all
  have prod: "(elementPhysicalWidth tg base * NUM_QPUS tg < VPM_DEFAULT_SIZE tg) =
      (unat (elementPhysicalWidth tg base) * unat (NUM_QPUS tg) < unat (VPM_DEFAULT_SIZE tg))"
    by (rule stack_product_no_wrap [OF nw fits])
  have asp: "(case getPointerType (type base) of Some (t, a) \<Rightarrow> a = LOCAL | None \<Rightarrow> False)
      = (addressSpaceOf base = Some LOCAL)"
    by (auto simp: addressSpaceOf_def split: option.splits)
  show ?thesis
  proof (cases "kind base")
    case Parameter
    then show ?thesis using valid loc base ns nw
      by (simp add: canMoveIntoVPM_def andThen_simps structElements_def
          elementPhysicalWidth_def Let_def)
  next
    case (Global c)
    then show ?thesis using valid loc base ns nw asp
      by (simp add: canMoveIntoVPM_def andThen_simps structElements_def
          elementPhysicalWidth_def Let_def)
  next
    case StackAllocation
    then show ?thesis using valid loc base ns nw prod
      by (simp add: canMoveIntoVPM_def andThen_simps structElements_def
          elementPhysicalWidth_def Let_def)
  next
    case Ordinary
    then show ?thesis using valid loc base ns nw
      by (simp add: canMoveIntoVPM_def andThen_simps structElements_def
          elementPhysicalWidth_def Let_def)
  qed
qed

theorem canMoveIntoVPM_address_table_witness:
  "checkMemoryLocation (Suc 0) exampleLocals (LocalValue 6 (PointerType TYPE_INT32 PRIVATE))
     = Some (Inr ())
   \<and> unat (VPM_DEFAULT_SIZE exampleTarget) * unat (NUM_QPUS exampleTarget) < 2 ^ 32
   \<and> canMoveIntoVPM exampleTarget (Suc 0) exampleLocals
       (LocalValue 6 (PointerType TYPE_INT32 PRIVATE)) True = Some (Inr True)"
proof -
  have valid: "checkMemoryLocation (Suc 0) exampleLocals
      (LocalValue 6 (PointerType TYPE_INT32 PRIVATE)) = Some (Inr ())"
    by (simp add: checkMemoryLocation_def exampleLocals_simps)
  have fits: "unat (VPM_DEFAULT_SIZE exampleTarget) * unat (NUM_QPUS exampleTarget) < 2 ^ 32"
    by (simp add: exampleTarget_def)
  have loc: "checkLocal (LocalValue 6 (PointerType TYPE_INT32 PRIVATE)) = Some 6"
    by simp
  show ?thesis
    using valid fits canMoveIntoVPM_address_table [OF valid loc fits refl]
    by (simp add: exampleLocals_simps exampleTarget_def structElements_def
        elementPhysicalWidth_def)
qed


subsection \<open>Classification of locals\<close>

text \<open>
  Claim C2 as stated says that for a local whose only writers are additions or
  subtractions with exactly one pointer-typed operand the classification follows that
  operand. In \<open>exampleLocals\<close> the pointer 0 is classified as not derived from memory,
  yet local 1, whose only writer is \<open>0 + 4\<close>, is classified as derived from memory.
\<close>

theorem pointer_operand_not_followed:
  "writers (exampleLocals 1) =
     [Operation OP_ADD (LocalValue 0 intPointer) (Some (LiteralValue 4 TYPE_INT32))]
   \<and> isDerivedFromMemory (Suc (Suc 0)) exampleLocals 0 = Some (Inr False)
   \<and> isDerivedFromMemory (Suc (Suc 0)) exampleLocals 1 = Some (Inr True)"
  by (simp add: exampleLocals_simps)

text \<open>
  Claim C2, amended. With enough fuel for one call, \<open>isDerivedFromMemory\<close> returns true
  for every local whose origin is a Global, a StackAllocation or a Parameter. For a local
  with any other origin whose writers are all additions or subtractions with exactly one
  pointer-typed operand, that operand being a local, it returns true without looking at
  how the pointer-typed operand is classified. For a local with any other origin whose
  only writer is an operation on two pointer-typed locals it returns false.
\<close>

theorem isDerivedFromMemory_classification:
  "(originInMemory ls l \<longrightarrow> isDerivedFromMemory (Suc fuel) ls l = Some (Inr True))
   \<and> (\<not> originInMemory ls l \<and> (\<forall>u\<in>set (writers (ls l)). pointerOffsetOperation u) \<longrightarrow>
        isDerivedFromMemory (Suc fuel) ls l = Some (Inr True))
   \<and> (\<not> originInMemory ls l
        \<and> writers (ls l) = [Operation code (LocalValue a ta) (Some (LocalValue b tb))]
        \<and> getPointerType ta \<noteq> None \<and> getPointerType tb \<noteq> None \<longrightarrow>
        isDerivedFromMemory (Suc fuel) ls l = Some (Inr False))"
  by (auto simp: originInMemory_iff andThen_simps forWriters_neutral checkWriter_pointerOffset)

theorem isDerivedFromMemory_classification_witness:
  "originInMemory exampleLocals 3
   \<and> isDerivedFromMemory (Suc 0) exampleLocals 3 = Some (Inr True)
   \<and> \<not> originInMemory exampleLocals 1
   \<and> writers (exampleLocals 1) =
       [Operation OP_ADD (LocalValue 0 intPointer) (Some (LiteralValue 4 TYPE_INT32))]
   \<and> isDerivedFromMemory (Suc 0) exampleLocals 1 = Some (Inr True)
   \<and> \<not> originInMemory exampleLocals 2
   \<and> writers (exampleLocals 2) =
       [Operation OP_ADD (LocalValue 0 intPointer) (Some (LocalValue 1 intPointer))]
   \<and> getPointerType intPointer \<noteq> None
   \<and> isDerivedFromMemory (Suc 0) exampleLocals 2 = Some (Inr False)"
proof -
  have a: "originInMemory exampleLocals 3"
    by (simp add: exampleLocals_simps)
  have b: "\<not> originInMemory exampleLocals 1
      \<and> (\<forall>u\<in>set (writers (exampleLocals 1)). pointerOffsetOperation u)"
    by (simp add: exampleLocals_simps)
  have c: "\<not> originInMemory exampleLocals 2
      \<and> writers (exampleLocals 2) =
          [Operation OP_ADD (LocalValue 0 intPointer) (Some (LocalValue 1 intPointer))]
      \<and> getPointerType intPointer \<noteq> None \<and> getPointerType intPointer \<noteq> None"
    by (simp add: exampleLocals_simps)
  have d: "writers (exampleLocals 1) =
      [Operation OP_ADD (LocalValue 0 intPointer) (Some (LiteralValue 4 TYPE_INT32))]"
    by (simp add: exampleLocals_simps)
  show ?thesis
    using a b c d
      isDerivedFromMemory_classification [of exampleLocals 3 0]
      isDerivedFromMemory_classification [of exampleLocals 1 0]
      isDerivedFromMemory_classification [of exampleLocals 2 0 OP_ADD 0 intPointer 1 intPointer]
    by blast
qed

text \<open>
  Claim C3 as stated says that a local written by a memory instruction, with an origin
  that is neither in memory nor a parameter, is classified as not derived from memory.
  Local 4 of \<open>exampleLocals\<close> is the destination of a READ and has no other writer; it
  is its own origin, an ordinary local; and it is classified as derived from memory.
\<close>

theorem loaded_local_is_derived:
  "writers (exampleLocals 4) = [MemoryInstr loadFromParameter]
   \<and> op loadFromParameter = READ
   \<and> \<not> residesInMemory (exampleLocals (getBase (exampleLocals 4)))
   \<and> kind (exampleLocals (getBase (exampleLocals 4))) \<noteq> Parameter
   \<and> isDerivedFromMemory (Suc 0) exampleLocals 4 = Some (Inr True)"
  by (simp add: exampleLocals_simps)

text \<open>
  Claim C3, amended. A writer that is a memory instruction is skipped by
  \<open>isDerivedFromMemory\<close>: it does not make the local "not derived from memory". So for a
  local whose origin neither resides in memory nor is a Parameter and whose writers are
  all memory instructions, \<open>isDerivedFromMemory\<close> returns true.
\<close>

theorem memory_instruction_writers_skipped:
  assumes "\<not> residesInMemory (ls (getBase (ls l)))"
    and "kind (ls (getBase (ls l))) \<noteq> Parameter"
    and "\<forall>u\<in>set (writers (ls l)). isMemoryInstruction u"
  shows "isDerivedFromMemory (Suc fuel) ls l = Some (Inr True)"
  using assms by (simp add: forWriters_neutral checkWriter_memory)

theorem memory_instruction_writers_skipped_witness:
  "\<not> residesInMemory (exampleLocals (getBase (exampleLocals 4)))
   \<and> kind (exampleLocals (getBase (exampleLocals 4))) \<noteq> Parameter
   \<and> writers (exampleLocals 4) = [MemoryInstr loadFromParameter]
   \<and> isDerivedFromMemory (Suc 0) exampleLocals 4 = Some (Inr True)"
proof -
  have d: "writers (exampleLocals 4) = [MemoryInstr loadFromParameter]"
    by (simp add: exampleLocals_def)
  have a: "\<not> residesInMemory (exampleLocals (getBase (exampleLocals 4)))"
    by (simp add: exampleLocals_simps)
  have b: "kind (exampleLocals (getBase (exampleLocals 4))) \<noteq> Parameter"
    by (simp add: exampleLocals_simps)
  have c: "\<forall>u\<in>set (writers (exampleLocals 4)). isMemoryInstruction u"
    by (simp add: exampleLocals_simps)
  show ?thesis
    using a b d memory_instruction_writers_skipped [OF a b c, of 0] by blast
qed

subsection \<open>Eligibility of a local value\<close>

lemma canMoveIntoVPM_with_users:
  "checkLocal val = None \<or> (\<exists>l. checkLocal val = Some l \<and> getUsers (ls l) \<noteq> []) \<Longrightarrow>
     canMoveIntoVPM tg fuel ls val False = Some (Inr False)"
  by (cases "checkLocal val") (auto simp: canMoveIntoVPM_def neq_Nil_conv)

lemma canMoveIntoVPM_of_operand:
  "isUserOf ls i val \<Longrightarrow> canMoveIntoVPM tg fuel ls val False = Some (Inr False)"
  by (rule canMoveIntoVPM_with_users) (auto simp: isUserOf_def split: option.splits)

text \<open>
  Claim C5. \<open>canMoveIntoVPM\<close> is local to \<open>MemoryInstruction.cpp\<close>; the values it
  receives are the source and the destination of a memory instruction, which is among the
  users of its operands' locals. For every such value, a local of any kind with any users or
  no local at all, \<open>canMoveIntoVPM\<close> with \<open>isMemoryAddress = false\<close> returns false. So
  \<open>canMoveSourceIntoVPM\<close> on a FILL or WRITE and \<open>canMoveDestinationIntoVPM\<close> on a READ,
  the calls that take this path, return false or throw the error of \<open>checkSingleValue\<close>;
  they never report eligibility.
\<close>

theorem canMoveIntoVPM_local_value:
  "(isUserOf ls i val \<longrightarrow> canMoveIntoVPM tg fuel ls val False = Some (Inr False))
   \<and> (isUserOf ls i (getSource i) \<and> op i \<noteq> COPY \<and> op i \<noteq> READ \<longrightarrow>
        canMoveSourceIntoVPM tg fuel ls i = Some (Inr False)
        \<or> canMoveSourceIntoVPM tg fuel ls i =
            Some (Inl (CompilationError LLVM_2_IR ''Operand needs to the constant one'')))
   \<and> (isUserOf ls i (getDestination i) \<and> op i = READ \<longrightarrow>
        canMoveDestinationIntoVPM tg fuel ls i = Some (Inr False)
        \<or> canMoveDestinationIntoVPM tg fuel ls i =
            Some (Inl (CompilationError LLVM_2_IR ''Operand needs to the constant one'')))"
  by (auto simp: canMoveSourceIntoVPM_def canMoveDestinationIntoVPM_def checkSingleValue_def
      andThen_simps canMoveIntoVPM_of_operand)

theorem canMoveIntoVPM_local_value_witness:
  "canMoveIntoVPM exampleTarget 0 exampleLocals (LocalValue 4 TYPE_INT32) False
       = Some (Inr False)
   \<and> canMoveSourceIntoVPM exampleTarget 0 fillLocals fillFromLocal = Some (Inr False)
   \<and> canMoveDestinationIntoVPM exampleTarget 0 exampleLocals loadFromParameter
       = Some (Inr False)"
proof -
  have load: "isUserOf exampleLocals loadFromParameter (LocalValue 4 TYPE_INT32)"
    by (simp add: isUserOf_def getUsers_def exampleLocals_def)
  have dst: "isUserOf exampleLocals loadFromParameter (getDestination loadFromParameter)
      \<and> op loadFromParameter = READ"
    using load by (simp add: loadFromParameter_def)
  have src: "isUserOf fillLocals fillFromLocal (getSource fillFromLocal)
      \<and> op fillFromLocal \<noteq> COPY \<and> op fillFromLocal \<noteq> READ"
    by (simp add: isUserOf_def getUsers_def fillLocals_def fillFromLocal_def)
  have noError: "canMoveSourceIntoVPM exampleTarget 0 fillLocals fillFromLocal
        \<noteq> Some (Inl (CompilationError LLVM_2_IR ''Operand needs to the constant one''))
      \<and> canMoveDestinationIntoVPM exampleTarget 0 exampleLocals loadFromParameter
        \<noteq> Some (Inl (CompilationError LLVM_2_IR ''Operand needs to the constant one''))"
    by (simp add: canMoveSourceIntoVPM_def canMoveDestinationIntoVPM_def canMoveIntoVPM_def
        checkSingleValue_def fillFromLocal_def loadFromParameter_def INT_ONE_def
        andThen_simps)
  show ?thesis
    using load dst src noError
      canMoveIntoVPM_local_value [of exampleLocals loadFromParameter
        "LocalValue 4 TYPE_INT32" exampleTarget 0]
      canMoveIntoVPM_local_value [of fillLocals fillFromLocal
        "LocalValue 4 TYPE_INT32" exampleTarget 0]
    by blast
qed

subsection \<open>Validation by the derived queries\<close>

lemma checkWriter_no_null:
  "(\<And>x. rec x \<noteq> Some (Inl NullDereference)) \<Longrightarrow>
     checkWriter rec acc u \<noteq> Some (Inl NullDereference)"
  by (cases u) (auto simp: andThen_def split: option.splits sum.splits)

lemma forWriters_no_null:
  "(\<And>x. rec x \<noteq> Some (Inl NullDereference)) \<Longrightarrow>
     forWriters rec acc us \<noteq> Some (Inl NullDereference)"
proof (induction us arbitrary: acc)
  case Nil
  then show ?case by simp
next
  case (Cons u us)
  have "checkWriter rec acc u \<noteq> Some (Inl NullDereference)"
    using Cons.prems by (rule checkWriter_no_null)
  then show ?case using Cons.IH [OF Cons.prems]
    by (auto simp: andThen_def split: option.splits sum.splits)
qed

lemma isDerivedFromMemory_no_null:
  "isDerivedFromMemory fuel ls l \<noteq> Some (Inl NullDereference)"
proof (induction fuel arbitrary: l)
  case 0
  then show ?case by simp
next
  case (Suc fuel)
  have "forWriters (\<lambda>x. isDerivedFromMemory fuel ls x) True (writers (ls l))
          \<noteq> Some (Inl NullDereference)"
    by (rule forWriters_no_null) (rule Suc.IH)
  then show ?case by (simp add: Let_def)
qed

lemma checkMemoryLocation_no_null:
  "checkMemoryLocation fuel ls val \<noteq> Some (Inl NullDereference)"
  using isDerivedFromMemory_no_null [of fuel ls]
  by (auto simp: checkMemoryLocation_def andThen_def split: option.splits sum.splits)

lemma checkMemoryLocation_throws:
  "checkMemoryLocation fuel ls val = Some (Inl e) \<Longrightarrow>
     throwsCompilationError (Some (Inl e) :: 'a outcome)"
  using checkMemoryLocation_no_null [of fuel ls val] by (cases e) auto

lemma notMemoryLocation_rejected:
  "notMemoryLocation fuel ls val \<Longrightarrow>
     \<exists>msg. checkMemoryLocation fuel ls val = Some (Inl (CompilationError LLVM_2_IR msg))"
  by (auto simp: notMemoryLocation_def checkMemoryLocation_def andThen_simps
      split: option.splits)

lemma first_check_throws:
  "notMemoryLocation fuel ls val \<Longrightarrow>
     throwsCompilationError (andThen (checkMemoryLocation fuel ls val) f)"
  using notMemoryLocation_rejected [of fuel ls val] by (auto simp: andThen_simps)

lemma second_check_throws:
  assumes "notMemoryLocation fuel ls val" and "checkMemoryLocation fuel ls first \<noteq> None"
  shows "throwsCompilationError
     (andThen (checkMemoryLocation fuel ls first)
        (\<lambda>_. andThen (checkMemoryLocation fuel ls val) f))"
proof (cases "checkMemoryLocation fuel ls first")
  case None
  with assms(2) show ?thesis by simp
next
  case (Some r)
  show ?thesis
  proof (cases r)
    case (Inl e)
    with Some show ?thesis using checkMemoryLocation_throws [of fuel ls first e]
      by (simp add: andThen_simps)
  next
    case (Inr u)
    with Some show ?thesis using first_check_throws [OF assms(1)]
      by (simp add: andThen_simps)
  qed
qed

text \<open>
  Claim C6 as stated says that every derived query validates the memory operands of the
  instruction's tag and fails when one of them is not a memory location. For the WRITE
  \<open>storeThroughComputedPointer\<close> neither the destination (a pointer that is not derived
  from memory) nor the source (not a pointer) is a memory location, and
  \<open>getSourceElementType\<close> returns the type of the source.
\<close>

theorem source_type_of_write_unvalidated:
  "op storeThroughComputedPointer = WRITE
   \<and> notMemoryLocation (Suc 0) exampleLocals (getDestination storeThroughComputedPointer)
   \<and> notMemoryLocation (Suc 0) exampleLocals (getSource storeThroughComputedPointer)
   \<and> getSourceElementType (Suc 0) exampleLocals storeThroughComputedPointer False
       = Some (Inr TYPE_INT32)"
  by (simp add: storeThroughComputedPointer_def notMemoryLocation_def getSourceElementType_def
      checkLocalValue_def checkSingleValue_def exampleLocals_simps)

text \<open>
  Claim C6, amended. Every call of a derived query validates anew, on the locals as they
  are at the call: the queries are functions of the current locals and the instruction
  only. If an operand is not a pointer-typed local that \<open>isDerivedFromMemory\<close> classifies
  as derived from memory, then
  \<^item> \<open>accessesConstantGlobal\<close>, \<open>accessesStackAllocation\<close>, \<open>accessesLocalMemory\<close> and
    \<open>getMemoryAreas\<close> throw a compilation error when the operand is the source of a COPY
    or READ, the destination of a FILL or WRITE, or the destination of a COPY whose source
    validation returns or throws;
  \<^item> \<open>getSourceElementType\<close> throws when the operand is the source of a COPY or READ (the
    source of a FILL or WRITE is checked as a local value instead);
  \<^item> \<open>getDestinationElementType\<close> throws when the operand is the destination of a COPY,
    FILL or WRITE (the destination of a READ is checked as a local value instead).
\<close>

theorem derived_queries_revalidate:
  assumes "notMemoryLocation fuel ls val"
  shows "(validatedByTag fuel ls i val \<longrightarrow>
            throwsCompilationError (accessesConstantGlobal fuel ls i)
          \<and> throwsCompilationError (accessesStackAllocation fuel ls i)
          \<and> throwsCompilationError (accessesLocalMemory fuel ls i)
          \<and> throwsCompilationError (getMemoryAreas fuel ls i))
       \<and> ((op i = COPY \<or> op i = READ) \<and> val = getSource i \<longrightarrow>
            throwsCompilationError (getSourceElementType fuel ls i sizedType))
       \<and> (op i \<noteq> READ \<and> val = getDestination i \<longrightarrow>
            throwsCompilationError (getDestinationElementType fuel ls i sizedType))"
  using assms
  by (cases "op i")
     (auto simp: validatedByTag_def accessesConstantGlobal_def accessesStackAllocation_def
        accessesLocalMemory_def getMemoryAreas_def getSourceElementType_def
        getDestinationElementType_def
        intro: first_check_throws second_check_throws)

theorem derived_queries_revalidate_witness:
  "notMemoryLocation (Suc 0) exampleLocals (LocalValue 0 intPointer)
   \<and> throwsCompilationError (accessesConstantGlobal (Suc 0) exampleLocals loadThroughComputedPointer)
   \<and> throwsCompilationError (accessesStackAllocation (Suc 0) exampleLocals loadThroughComputedPointer)
   \<and> throwsCompilationError (accessesLocalMemory (Suc 0) exampleLocals loadThroughComputedPointer)
   \<and> throwsCompilationError (getMemoryAreas (Suc 0) exampleLocals loadThroughComputedPointer)
   \<and> throwsCompilationError
       (getSourceElementType (Suc 0) exampleLocals loadThroughComputedPointer False)
   \<and> throwsCompilationError
       (getDestinationElementType (Suc 0) exampleLocals storeThroughComputedPointer False)"
proof -
  have rejected: "notMemoryLocation (Suc 0) exampleLocals (LocalValue 0 intPointer)"
    by (simp add: notMemoryLocation_def exampleLocals_simps)
  have load: "validatedByTag (Suc 0) exampleLocals loadThroughComputedPointer
        (LocalValue 0 intPointer)
      \<and> op loadThroughComputedPointer = READ
      \<and> LocalValue 0 intPointer = getSource loadThroughComputedPointer"
    by (simp add: validatedByTag_def loadThroughComputedPointer_def)
  have store: "op storeThroughComputedPointer \<noteq> READ
      \<and> LocalValue 0 intPointer = getDestination storeThroughComputedPointer"
    by (simp add: storeThroughComputedPointer_def)
  show ?thesis
    using rejected load store
      derived_queries_revalidate [OF rejected, of loadThroughComputedPointer False]
      derived_queries_revalidate [OF rejected, of storeThroughComputedPointer False]
    by blast
qed


subsection \<open>Header and tail of a natural loop\<close>




lemma collectLoop_visited: "set visited \<subseteq> set (collectLoop edges d work visited)"
  by (induction edges d work visited rule: collectLoop.induct) auto


lemma collectLoop_work:
  "x \<in> set work \<Longrightarrow> d x \<Longrightarrow> x \<in> set (collectLoop edges d work visited)"
proof (induction edges d work visited rule: collectLoop.induct)
  case (1 edges dominated visited)
  then show ?case by simp
next
  case (2 edges dominated y work visited)
  then show ?case
    using collectLoop_visited [of "y # visited" edges dominated "predecessors edges y @ work"]
      collectLoop_visited [of visited edges dominated work]
    by (auto split: if_splits)
qed













subsection \<open>The inclusion tree of nested loops\<close>

lemma includesLoop_irrefl: "\<not> includesLoop A A"
  by (simp add: includesLoop_def)

lemma includesLoop_trans: "includesLoop A B \<Longrightarrow> includesLoop B C \<Longrightarrow> includesLoop A C"
  by (auto simp: includesLoop_def)

lemma includesLoop_asym: "includesLoop A B \<Longrightarrow> \<not> includesLoop B A"
  by (auto simp: includesLoop_def)

lemma treeEdges_iff:
  "(P, Q) \<in> set (treeEdges (createLoopInclusingTree loops)) \<longleftrightarrow>
     P \<in> set loops \<and> Q \<in> set loops \<and> includesLoop P Q
     \<and> (\<forall>R\<in>set loops. \<not> (includesLoop P R \<and> includesLoop R Q))"
  by (auto simp: createLoopInclusingTree_def innermostIncluding_def list_ex_iff)

lemma set_children:
  "set (children (createLoopInclusingTree loops) P) =
     {Q \<in> set loops. P \<in> set loops \<and> includesLoop P Q
        \<and> (\<forall>R\<in>set loops. \<not> (includesLoop P R \<and> includesLoop R Q))}"
proof -
  have "set (children (createLoopInclusingTree loops) P)
      = {Q. (P, Q) \<in> set (treeEdges (createLoopInclusingTree loops))}"
    by (force simp: children_def)
  then show ?thesis by (auto simp: treeEdges_iff)
qed

lemma set_parents:
  "set (parents (createLoopInclusingTree loops) Q) =
     {P \<in> set loops. Q \<in> set loops \<and> includesLoop P Q
        \<and> (\<forall>R\<in>set loops. \<not> (includesLoop P R \<and> includesLoop R Q))}"
proof -
  have "set (parents (createLoopInclusingTree loops) Q)
      = {P. (P, Q) \<in> set (treeEdges (createLoopInclusingTree loops))}"
    by (force simp: parents_def)
  then show ?thesis by (auto simp: treeEdges_iff)
qed

lemma innermost_exists:
  assumes "P \<in> set loops" and "includesLoop P Q"
  shows "\<exists>P'\<in>set loops. includesLoop P' Q
           \<and> (\<forall>R\<in>set loops. \<not> (includesLoop P' R \<and> includesLoop R Q))"
  using assms
proof (induction "card (set (loopNodes P))" arbitrary: P rule: less_induct)
  case less
  show ?case
  proof (cases "\<exists>R\<in>set loops. includesLoop P R \<and> includesLoop R Q")
    case False
    with less.prems show ?thesis by blast
  next
    case True
    then obtain R where R: "R \<in> set loops" "includesLoop P R" "includesLoop R Q" by blast
    from R(2) have "card (set (loopNodes R)) < card (set (loopNodes P))"
      by (simp add: includesLoop_def psubset_card_mono)
    from less.hyps [OF this R(1) R(3)] show ?thesis .
  qed
qed

lemma roots_iff:
  "Q \<in> set (roots (createLoopInclusingTree loops)) \<longleftrightarrow>
     Q \<in> set loops \<and> (\<forall>P\<in>set loops. \<not> includesLoop P Q)"
proof -
  have "Q \<in> set (roots (createLoopInclusingTree loops)) \<longleftrightarrow>
      Q \<in> set loops \<and> set (parents (createLoopInclusingTree loops) Q) = {}"
    by (auto simp: roots_def createLoopInclusingTree_def)
  also have "\<dots> \<longleftrightarrow> Q \<in> set loops \<and> (\<forall>P\<in>set loops. \<not> includesLoop P Q)"
    unfolding set_parents using innermost_exists [of _ loops Q] by blast
  finally show ?thesis .
qed

lemma nested_loops_children:
  assumes loops: "set loops = {A, B, C, D}"
    and AB: "includesLoop A B" and BC: "includesLoop B C" and AD: "includesLoop A D"
    and BD: "\<not> includesLoop B D" and DB: "\<not> includesLoop D B"
    and CD: "\<not> includesLoop C D" and DC: "\<not> includesLoop D C"
  shows "set (children (createLoopInclusingTree loops) A) = {B, D}
    \<and> set (children (createLoopInclusingTree loops) B) = {C}
    \<and> children (createLoopInclusingTree loops) C = []
    \<and> children (createLoopInclusingTree loops) D = []
    \<and> set (roots (createLoopInclusingTree loops)) = {A}"
proof -
  have AC: "includesLoop A C" using AB BC by (rule includesLoop_trans)
  have BA: "\<not> includesLoop B A" using AB by (rule includesLoop_asym)
  have CB: "\<not> includesLoop C B" using BC by (rule includesLoop_asym)
  have CA: "\<not> includesLoop C A" using AC by (rule includesLoop_asym)
  have DA: "\<not> includesLoop D A" using AD by (rule includesLoop_asym)
  note rel = AB BC AD BD DB CD DC AC BA CB CA DA includesLoop_irrefl
  have cA: "set (children (createLoopInclusingTree loops) A) = {B, D}"
    unfolding set_children loops using rel by auto
  have cB: "set (children (createLoopInclusingTree loops) B) = {C}"
    unfolding set_children loops using rel by auto
  have "set (children (createLoopInclusingTree loops) C) = {}"
    unfolding set_children loops using rel by auto
  then have cC: "children (createLoopInclusingTree loops) C = []" by simp
  have "set (children (createLoopInclusingTree loops) D) = {}"
    unfolding set_children loops using rel by auto
  then have cD: "children (createLoopInclusingTree loops) D = []" by simp
  have "\<And>Q. Q \<in> set (roots (createLoopInclusingTree loops)) \<longleftrightarrow> Q = A"
    unfolding roots_iff loops using rel by auto
  then have r: "set (roots (createLoopInclusingTree loops)) = {A}" by blast
  from cA cB cC cD r show ?thesis by simp
qed

text \<open>
  Claim C8. For a list holding exactly the loops A, B, C and D, in any order, where A
  includes B, B includes C, A includes D, and D is unrelated to B and to C by inclusion,
  the tree has the root A with the children B and D, B has the single child C, and C and D
  are leaves. For every list of loops, the parents of a loop in the tree are exactly the
  innermost loops that include it, and the roots are exactly the loops that no loop of
  the list includes.
\<close>

theorem inclusion_tree_of_nested_loops:
  "(set loops = {A, B, C, D} \<and> includesLoop A B \<and> includesLoop B C \<and> includesLoop A D
      \<and> \<not> includesLoop B D \<and> \<not> includesLoop D B \<and> \<not> includesLoop C D \<and> \<not> includesLoop D C
      \<longrightarrow> set (children (createLoopInclusingTree loops) A) = {B, D}
        \<and> set (children (createLoopInclusingTree loops) B) = {C}
        \<and> children (createLoopInclusingTree loops) C = []
        \<and> children (createLoopInclusingTree loops) D = []
        \<and> set (roots (createLoopInclusingTree loops)) = {A})
   \<and> (Q \<in> set ls \<longrightarrow>
        set (parents (createLoopInclusingTree ls) Q) =
          {P \<in> set ls. includesLoop P Q
             \<and> (\<forall>R\<in>set ls. \<not> (includesLoop P R \<and> includesLoop R Q))})
   \<and> (Q \<in> set (roots (createLoopInclusingTree ls)) \<longleftrightarrow>
        Q \<in> set ls \<and> (\<forall>P\<in>set ls. \<not> includesLoop P Q))"
  using nested_loops_children [of loops A B C D] set_parents [of ls Q] roots_iff [of Q ls]
  by blast

theorem inclusion_tree_of_nested_loops_witness:
  "includesLoop loopA loopB \<and> includesLoop loopB loopC \<and> includesLoop loopA loopD
   \<and> set (children (createLoopInclusingTree [loopC, loopD, loopB, loopA]) loopA)
       = {loopB, loopD}
   \<and> set (children (createLoopInclusingTree [loopC, loopD, loopB, loopA]) loopB) = {loopC}
   \<and> children (createLoopInclusingTree [loopC, loopD, loopB, loopA]) loopC = []
   \<and> children (createLoopInclusingTree [loopC, loopD, loopB, loopA]) loopD = []
   \<and> set (roots (createLoopInclusingTree [loopC, loopD, loopB, loopA])) = {loopA}
   \<and> set (parents (createLoopInclusingTree [loopC, loopD, loopB, loopA]) loopC) = {loopB}"
proof -
  let ?L = "[loopC, loopD, loopB, loopA]"
  have rel: "includesLoop loopA loopB \<and> includesLoop loopB loopC \<and> includesLoop loopA loopD
      \<and> \<not> includesLoop loopB loopD \<and> \<not> includesLoop loopD loopB
      \<and> \<not> includesLoop loopC loopD \<and> \<not> includesLoop loopD loopC"
    by code_simp
  have elems: "set ?L = {loopA, loopB, loopC, loopD}"
    by auto
  have hyp: "set ?L = {loopA, loopB, loopC, loopD}
      \<and> includesLoop loopA loopB \<and> includesLoop loopB loopC \<and> includesLoop loopA loopD
      \<and> \<not> includesLoop loopB loopD \<and> \<not> includesLoop loopD loopB
      \<and> \<not> includesLoop loopC loopD \<and> \<not> includesLoop loopD loopC"
    using elems rel by (rule conjI)
  note inst = inclusion_tree_of_nested_loops [of ?L loopA loopB loopC loopD loopC ?L]
  from inst have "set ?L = {loopA, loopB, loopC, loopD}
      \<and> includesLoop loopA loopB \<and> includesLoop loopB loopC \<and> includesLoop loopA loopD
      \<and> \<not> includesLoop loopB loopD \<and> \<not> includesLoop loopD loopB
      \<and> \<not> includesLoop loopC loopD \<and> \<not> includesLoop loopD loopC
      \<longrightarrow> set (children (createLoopInclusingTree ?L) loopA) = {loopB, loopD}
        \<and> set (children (createLoopInclusingTree ?L) loopB) = {loopC}
        \<and> children (createLoopInclusingTree ?L) loopC = []
        \<and> children (createLoopInclusingTree ?L) loopD = []
        \<and> set (roots (createLoopInclusingTree ?L)) = {loopA}"
    by (rule conjunct1)
  then have tree: "set (children (createLoopInclusingTree ?L) loopA) = {loopB, loopD}
        \<and> set (children (createLoopInclusingTree ?L) loopB) = {loopC}
        \<and> children (createLoopInclusingTree ?L) loopC = []
        \<and> children (createLoopInclusingTree ?L) loopD = []
        \<and> set (roots (createLoopInclusingTree ?L)) = {loopA}"
    using hyp by (rule mp)
  have inL: "loopC \<in> set ?L" by simp
  from inst have "loopC \<in> set ?L \<longrightarrow>
        set (parents (createLoopInclusingTree ?L) loopC) =
          {P \<in> set ?L. includesLoop P loopC
             \<and> (\<forall>R\<in>set ?L. \<not> (includesLoop P R \<and> includesLoop R loopC))}"
    by (rule conjunct2 [THEN conjunct1])
  then have par: "set (parents (createLoopInclusingTree ?L) loopC) =
          {P \<in> set ?L. includesLoop P loopC
             \<and> (\<forall>R\<in>set ?L. \<not> (includesLoop P R \<and> includesLoop R loopC))}"
    using inL by (rule mp)
  have more: "includesLoop loopA loopC" "\<not> includesLoop loopC loopC"
      "\<not> includesLoop loopB loopB" "\<not> includesLoop loopC loopB" "\<not> includesLoop loopB loopA"
    by code_simp+
  have "{P \<in> set ?L. includesLoop P loopC
             \<and> (\<forall>R\<in>set ?L. \<not> (includesLoop P R \<and> includesLoop R loopC))} = {loopB}"
    unfolding elems using rel more by blast
  with par have par': "set (parents (createLoopInclusingTree ?L) loopC) = {loopB}"
    by simp
  from rel tree par' show ?thesis by blast
qed

subsection \<open>Bounds of a canonical counting loop\<close>

text \<open>
  Claim C9. For an induction variable whose initial assignment is the literal 0, whose
  step adds the literal 1 to the variable, and whose repeat condition is a strict less-than
  comparison against a literal \<open>N\<close> checked before the step, the lower bound is 0, the step
  is 1, the upper bound is \<open>N\<close> and the iteration count is exactly \<open>N\<close>.
\<close>

theorem canonical_counting_loop:
  assumes "initialAssignment iv = MoveOperation (LiteralValue 0 t0)"
    and "inductionStep iv = Operation OP_ADD (LocalValue (local iv) t1) (Some (LiteralValue 1 t2))"
    and "repeatCondition iv = Some (COMP_LT, LiteralValue N t3)"
    and "conditionCheckedBeforeStep iv"
  shows "getLowerBound iv = Some 0 \<and> getStep iv = Some 1 \<and> getUpperBound iv = Some N
    \<and> getIterationCount other iv = Some (unat N)"
  using assms
  by (simp add: getLowerBound_def getStep_def getUpperBound_def getIterationCount_def
      getRange_def adjustment_def)

theorem canonical_counting_loop_witness:
  "getLowerBound countingLoopVariable = Some 0 \<and> getStep countingLoopVariable = Some 1
   \<and> getUpperBound countingLoopVariable = Some 10
   \<and> getIterationCount (\<lambda>c b. 1) countingLoopVariable = Some 10"
proof -
  have a: "initialAssignment countingLoopVariable = MoveOperation (LiteralValue 0 TYPE_INT32)"
    by (simp add: countingLoopVariable_def)
  have b: "inductionStep countingLoopVariable =
      Operation OP_ADD (LocalValue (local countingLoopVariable) TYPE_INT32)
        (Some (LiteralValue 1 TYPE_INT32))"
    by (simp add: countingLoopVariable_def)
  have c: "repeatCondition countingLoopVariable = Some (COMP_LT, LiteralValue 10 TYPE_INT32)"
    by (simp add: countingLoopVariable_def)
  have d: "conditionCheckedBeforeStep countingLoopVariable"
    by (simp add: countingLoopVariable_def)
  show ?thesis
    using canonical_counting_loop [OF a b c d, of "\<lambda>c b. 1"] by simp
qed

end
